theory Spec2Isabelle
  imports Complex_Main "HOL-Library.Word"
begin

section \<open>The active-volume vertex sampler of the MARLEY interface\<close>

text \<open>
  A shallow embedding of \<^verbatim>\<open>evgen::ActiveVolumeVertexSampler\<close>
  (\<^verbatim>\<open>ActiveVolumeVertexSampler.h\<close>, \<^verbatim>\<open>ActiveVolumeVertexSampler.cxx\<close>).

  Conventions of the embedding:
  \<^item> a \<^verbatim>\<open>double\<close> is a \<^typ>\<open>real\<close>; the only arithmetic the sampler does on one is
    \<^verbatim>\<open>fT0 - fSigmaT\<close> and \<^verbatim>\<open>fT0 + fSigmaT\<close>;
  \<^item> the object's members are a record that every member function takes and returns;
  \<^item> a \<^verbatim>\<open>throw\<close> is an exception value returned next to the state the object is left
    in, so that what was assigned before the \<^verbatim>\<open>throw\<close> stays visible;
  \<^item> the random engine and the distributions of \<^verbatim>\<open><random>\<close>, the seed service and
    the geometry are not part of these sources: they are parameters of the model.
\<close>

subsection \<open>Data\<close>

text \<open>ROOT's four-vector, with the accessors \<^verbatim>\<open>X()\<close>, \<^verbatim>\<open>Y()\<close>, \<^verbatim>\<open>Z()\<close>, \<^verbatim>\<open>T()\<close> as fields.\<close>

record TLorentzVector =
  X :: real
  Y :: real
  Z :: real
  T :: real

definition SetXYZT :: "real \<Rightarrow> real \<Rightarrow> real \<Rightarrow> real \<Rightarrow> TLorentzVector \<Rightarrow> TLorentzVector" where
  "SetXYZT x y z t v = \<lparr>X = x, Y = y, Z = z, T = t\<rparr>"

definition SetT :: "real \<Rightarrow> TLorentzVector \<Rightarrow> TLorentzVector" where
  "SetT t v = v\<lparr>T := t\<rparr>"

text \<open>The default constructor \<^verbatim>\<open>TLorentzVector()\<close>.\<close>

definition TLorentzVector0 :: TLorentzVector where
  "TLorentzVector0 = \<lparr>X = 0, Y = 0, Z = 0, T = 0\<rparr>"

datatype vertex_type_t = kSampled | kFixed

datatype time_type_t = kUniform | kGaussian

text \<open>
  Exceptions. \<open>cet_exception category message\<close> is \<^verbatim>\<open>cet::exception(category) << message\<close>,
  the two \<^verbatim>\<open>throw\<close>s of \<^verbatim>\<open>reconfigure\<close>. The other three are failures of the
  collaborators: a TPC index the geometry does not have, \<^verbatim>\<open>std::array::at\<close> out of
  range, and a call through the null \<^verbatim>\<open>fTPCDist\<close>.
\<close>

datatype exception =
    cet_exception string string
  | TPCOutOfRange nat
  | out_of_range nat
  | NullTPCDist

text \<open>\<^verbatim>\<open>fhicl::Sequence<double, 3>\<close> yields a \<^verbatim>\<open>std::array<double, 3>\<close>; \<open>array_at\<close> is its \<^verbatim>\<open>at\<close>.\<close>

type_synonym array3 = "real \<times> real \<times> real"

fun array_at :: "array3 \<Rightarrow> nat \<Rightarrow> exception + real" where
  "array_at (a0, a1, a2) i =
     (if i = 0 then Inr a0 else if i = 1 then Inr a1 else if i = 2 then Inr a2
      else Inl (out_of_range i))"

text \<open>
  \<^verbatim>\<open>struct Config\<close>: the FHiCL parameters. The members \<^verbatim>\<open>type_\<close>, \<^verbatim>\<open>seed_\<close>, ... of the
  header are written \<open>cfg_type\<close>, \<open>cfg_seed\<close>, ... here.
\<close>

record Config =
  cfg_type :: string
  cfg_seed :: "string option"
  cfg_position :: array3
  cfg_min_position :: array3
  cfg_max_position :: array3
  cfg_check_active :: "bool option"
  cfg_T0 :: real
  cfg_SigmaT :: real
  cfg_time_type :: string

text \<open>
  The geometry, as far as the sampler reads it: the TPCs of the detector in index order,
  each with the bounds of its active volume and its active mass.
\<close>

record TPCGeo =
  MinX :: real
  MaxX :: real
  MinY :: real
  MaxY :: real
  MinZ :: real
  MaxZ :: real
  ActiveMass :: real

type_synonym Geometry = "TPCGeo list"

definition NTPC :: "Geometry \<Rightarrow> nat" where
  "NTPC geom = length geom"

definition TPC :: "Geometry \<Rightarrow> nat \<Rightarrow> exception + TPCGeo" where
  "TPC geom i = (if i < length geom then Inr (geom ! i) else Inl (TPCOutOfRange i))"

text \<open>
  What the sampler uses of \<^verbatim>\<open><random>\<close>, over an engine state of type \<open>'e\<close>:
  the default-constructed \<^verbatim>\<open>std::mt19937_64\<close>, \<^verbatim>\<open>seed\<close> from a \<^verbatim>\<open>std::seed_seq\<close> built from
  a list of integers, and one call of each distribution on the engine, which returns the
  value drawn and the engine after the draw. \<open>discrete_distribution w\<close> is the distribution
  object built from the weights \<open>w\<close>.
\<close>

record 'e stdlib =
  default_engine :: 'e
  seed_engine :: "64 word list \<Rightarrow> 'e"
  discrete_distribution :: "real list \<Rightarrow> 'e \<Rightarrow> nat \<times> 'e"
  uniform_real_distribution :: "real \<Rightarrow> real \<Rightarrow> 'e \<Rightarrow> real \<times> 'e"
  normal_distribution :: "real \<Rightarrow> real \<Rightarrow> 'e \<Rightarrow> real \<times> 'e"

text \<open>
  \<^verbatim>\<open>rndm::NuRandomService::registerEngine(seeder, instance, pset, { "seed" })\<close>: the seed the
  service assigns, from the instance name and the one configuration key it is told to
  read. \<^verbatim>\<open>seed_t\<close> is a signed \<^verbatim>\<open>long\<close>: an integer, which
  \<^verbatim>\<open>static_cast<uint_fast64_t>\<close> reduces modulo \<open>2 ^ 64\<close>.
\<close>

type_synonym seed_t = int

type_synonym NuRandomService = "string \<Rightarrow> string option \<Rightarrow> seed_t"

text \<open>The members of the class.\<close>

record 'e sampler =
  fVertexPosition :: TLorentzVector
  fVertexType :: vertex_type_t
  fTimeType :: time_type_t
  fGeneratorName :: string
  fT0 :: real
  fSigmaT :: real
  fTPCDist :: "real list option"
  fTPCEngine :: 'e

subsection \<open>reconfigure\<close>

text \<open>
  The loop of \<^verbatim>\<open>reconfigure\<close> that collects the active masses:
  \<^verbatim>\<open>for (size_t iTPC = 0; iTPC < num_tpcs; ++iTPC) tpc_masses.push_back(geom.TPC(iTPC).ActiveMass());\<close>
\<close>

function tpc_masses_loop :: "Geometry \<Rightarrow> nat \<Rightarrow> nat \<Rightarrow> real list \<Rightarrow> exception + real list" where
  "tpc_masses_loop geom num_tpcs iTPC tpc_masses =
     (if iTPC < num_tpcs then
        (case TPC geom iTPC of
           Inl ex \<Rightarrow> Inl ex
         | Inr tpc \<Rightarrow> tpc_masses_loop geom num_tpcs (Suc iTPC) (tpc_masses @ [ActiveMass tpc]))
      else Inr tpc_masses)"
  by pat_completeness auto
termination
  by (relation "measure (\<lambda>(geom, num_tpcs, iTPC, tpc_masses). num_tpcs - iTPC)") auto

declare tpc_masses_loop.simps [simp del]

text \<open>
  The first half of \<^verbatim>\<open>reconfigure\<close>, the dispatch on \<^verbatim>\<open>type\<close>. The result is the
  object as the statements executed so far leave it, and the exception if one was thrown.
\<close>

definition reconfigure_vertex :: "Config \<Rightarrow> Geometry \<Rightarrow> 'e sampler \<Rightarrow> 'e sampler \<times> exception option" where
  "reconfigure_vertex conf geom s =
     (let type = cfg_type conf in
      if type = ''sampled'' then
        (let s1 = s\<lparr>fVertexType := kSampled\<rparr> in
         case tpc_masses_loop geom (NTPC geom) 0 [] of
           Inl ex \<Rightarrow> (s1, Some ex)
         | Inr tpc_masses \<Rightarrow> (s1\<lparr>fTPCDist := Some tpc_masses\<rparr>, None))
      else if type = ''fixed'' then
        (let s1 = s\<lparr>fVertexType := kFixed\<rparr>;
             vertex_pos = cfg_position conf in
         case array_at vertex_pos 0 of
           Inl ex \<Rightarrow> (s1, Some ex)
         | Inr Vx \<Rightarrow>
        (case array_at vertex_pos 0 of
           Inl ex \<Rightarrow> (s1, Some ex)
         | Inr Vy \<Rightarrow>
        (case array_at vertex_pos 0 of
           Inl ex \<Rightarrow> (s1, Some ex)
         | Inr Vz \<Rightarrow>
           (s1\<lparr>fVertexPosition := SetXYZT Vx Vy Vz 0 (fVertexPosition s1)\<rparr>, None))))
      else
        (s, Some (cet_exception (''ActiveVolumeVertexSampler '' @ fGeneratorName s)
                    (''Invalid vertex type '' @ [CHR 0x27] @ type @ [CHR 0x27]
                     @ '' requested. Allowed values are''
                     @ '' '' @ [CHR 0x27] @ ''sampled'' @ [CHR 0x27]
                     @ '' and '' @ [CHR 0x27] @ ''fixed'' @ [CHR 0x27]))))"

text \<open>The second half: \<^verbatim>\<open>time_type\<close>, then \<^verbatim>\<open>T0\<close> and \<^verbatim>\<open>SigmaT\<close>.\<close>

definition reconfigure_time :: "Config \<Rightarrow> 'e sampler \<Rightarrow> 'e sampler \<times> exception option" where
  "reconfigure_time conf s =
     (let time_type = cfg_time_type conf in
      if time_type = ''uniform'' then
        (s\<lparr>fTimeType := kUniform, fT0 := cfg_T0 conf, fSigmaT := cfg_SigmaT conf\<rparr>, None)
      else if time_type = ''gaussian'' then
        (s\<lparr>fTimeType := kGaussian, fT0 := cfg_T0 conf, fSigmaT := cfg_SigmaT conf\<rparr>, None)
      else
        (s, Some (cet_exception (''ActiveVolumeVertexSampler '' @ fGeneratorName s)
                    (''Invalid vertex time type '' @ [CHR 0x27] @ time_type @ [CHR 0x27]
                     @ '' requested. Allowed values are''
                     @ '' '' @ [CHR 0x27] @ ''uniform'' @ [CHR 0x27]
                     @ '' and '' @ [CHR 0x27] @ ''gaussian'' @ [CHR 0x27]))))"

definition reconfigure :: "Config \<Rightarrow> Geometry \<Rightarrow> 'e sampler \<Rightarrow> 'e sampler \<times> exception option" where
  "reconfigure conf geom s =
     (case reconfigure_vertex conf geom s of
        (s1, Some ex) \<Rightarrow> (s1, Some ex)
      | (s1, None) \<Rightarrow> reconfigure_time conf s1)"

subsection \<open>sample_vertex_pos\<close>

text \<open>
  The position block of \<^verbatim>\<open>sample_vertex_pos\<close>: taken only when the vertex type is
  \<^verbatim>\<open>kSampled\<close>. \<^verbatim>\<open>geom.TPC(tpc_index)\<close> throws for an index the geometry does not have;
  the engine has made the index draw by then. The \<^verbatim>\<open>static\<close> uniform distribution object
  is given its range at every call and keeps nothing from one call to the next.
\<close>

definition sample_position :: "'e stdlib \<Rightarrow> Geometry \<Rightarrow> 'e sampler \<Rightarrow> 'e sampler \<times> exception option" where
  "sample_position L geom s =
     (if fVertexType s = kSampled then
        (case fTPCDist s of
           None \<Rightarrow> (s, Some NullTPCDist)
         | Some w \<Rightarrow>
             (let (tpc_index, e1) = discrete_distribution L w (fTPCEngine s);
                  s1 = s\<lparr>fTPCEngine := e1\<rparr>
              in case TPC geom tpc_index of
                   Inl ex \<Rightarrow> (s1, Some ex)
                 | Inr tpc \<Rightarrow>
                     (let minX = MinX tpc; maxX = MaxX tpc;
                          minY = MinY tpc; maxY = MaxY tpc;
                          minZ = MinZ tpc; maxZ = MaxZ tpc;
                          (x, e2) = uniform_real_distribution L minX maxX e1;
                          (y, e3) = uniform_real_distribution L minY maxY e2;
                          (z, e4) = uniform_real_distribution L minZ maxZ e3
                      in (s1\<lparr>fTPCEngine := e4,
                              fVertexPosition := SetXYZT x y z 0 (fVertexPosition s1)\<rparr>, None))))
      else (s, None))"

text \<open>The time block: the value drawn and the engine after the draw.\<close>

definition sample_time :: "'e stdlib \<Rightarrow> 'e sampler \<Rightarrow> real \<times> 'e" where
  "sample_time L s =
     (if fTimeType s = kGaussian then
        normal_distribution L (fT0 s) (fSigmaT s) (fTPCEngine s)
      else
        (let min_t = fT0 s - fSigmaT s;
             max_t = fT0 s + fSigmaT s
         in uniform_real_distribution L min_t max_t (fTPCEngine s)))"

definition sample_vertex_pos ::
  "'e stdlib \<Rightarrow> Geometry \<Rightarrow> 'e sampler \<Rightarrow> 'e sampler \<times> (exception + TLorentzVector)" where
  "sample_vertex_pos L geom s =
     (case sample_position L geom s of
        (s1, Some ex) \<Rightarrow> (s1, Inl ex)
      | (s1, None) \<Rightarrow>
          (let (t, e') = sample_time L s1;
               s2 = s1\<lparr>fTPCEngine := e', fVertexPosition := SetT t (fVertexPosition s1)\<rparr>
           in (s2, Inr (fVertexPosition s2))))"

subsection \<open>The constructor\<close>

text \<open>
  The constructor initialises the members, runs \<^verbatim>\<open>reconfigure\<close>, asks the seed service
  for the seed and seeds the engine from it. \<^verbatim>\<open>fTimeType\<close> has no initialiser: its value
  before \<^verbatim>\<open>reconfigure\<close> is whatever the memory holds, the argument \<open>unset_time_type\<close>.
  The seeder that the constructor hands to the service does the same seeding from the
  same seed; only the constructor's own seeding, which comes last, is modelled. An
  exception of \<^verbatim>\<open>reconfigure\<close> leaves the constructor, and there is no object.
\<close>

definition ActiveVolumeVertexSampler ::
  "'e stdlib \<Rightarrow> NuRandomService \<Rightarrow> Config \<Rightarrow> Geometry \<Rightarrow> string \<Rightarrow> time_type_t
     \<Rightarrow> exception + 'e sampler" where
  "ActiveVolumeVertexSampler L rand_service conf geom generator_name unset_time_type =
     (let s0 = \<lparr>fVertexPosition = TLorentzVector0, fVertexType = kSampled,
                fTimeType = unset_time_type, fGeneratorName = generator_name,
                fT0 = 0, fSigmaT = 0, fTPCDist = None, fTPCEngine = default_engine L\<rparr>
      in case reconfigure conf geom s0 of
           (s1, Some ex) \<Rightarrow> Inl ex
         | (s1, None) \<Rightarrow>
             (let tpc_seed = rand_service (fGeneratorName s1) (cfg_seed conf);
                  tpc_cast_seed = (word_of_int tpc_seed :: 64 word)
              in Inr (s1\<lparr>fTPCEngine := seed_engine L [tpc_cast_seed]\<rparr>)))"

subsection \<open>Successive calls\<close>

text \<open>
  \<^verbatim>\<open>MarleyGen::produce\<close> calls \<^verbatim>\<open>sample_vertex_pos\<close> once per event on the same object
  and the same geometry. \<open>sample_calls L geom n s\<close> is the outcome of each of \<open>n\<close>
  successive calls, first call first.
\<close>

fun sample_calls :: "'e stdlib \<Rightarrow> Geometry \<Rightarrow> nat \<Rightarrow> 'e sampler \<Rightarrow> (exception + TLorentzVector) list" where
  "sample_calls L geom 0 s = []"
| "sample_calls L geom (Suc n) s =
     (case sample_vertex_pos L geom s of (s', r) \<Rightarrow> r # sample_calls L geom n s')"

text \<open>A run: construct the sampler, then call it \<open>n\<close> times.\<close>

definition sampler_run ::
  "'e stdlib \<Rightarrow> NuRandomService \<Rightarrow> Config \<Rightarrow> Geometry \<Rightarrow> string \<Rightarrow> time_type_t \<Rightarrow> nat
     \<Rightarrow> exception + (exception + TLorentzVector) list" where
  "sampler_run L rand_service conf geom generator_name unset_time_type n =
     (case ActiveVolumeVertexSampler L rand_service conf geom generator_name unset_time_type of
        Inl ex \<Rightarrow> Inl ex
      | Inr s \<Rightarrow> Inr (sample_calls L geom n s))"

subsection \<open>Observing the draws\<close>

text \<open>
  The sampler is written over any engine, so the draws it makes can be observed by
  running it on an engine that keeps a log: \<open>logged L\<close> is the library \<open>L\<close> whose engine
  also records, in order, every distribution call made on it, with the parameters of the
  call. A draw is one call of a distribution object on the engine.
\<close>

datatype draw =
    DiscreteDraw "real list"
  | UniformDraw real real
  | NormalDraw real real

definition logged :: "'e stdlib \<Rightarrow> ('e \<times> draw list) stdlib" where
  "logged L =
     \<lparr>default_engine = (default_engine L, []),
      seed_engine = (\<lambda>q. (seed_engine L q, [])),
      discrete_distribution = (\<lambda>w (e, l).
         (fst (discrete_distribution L w e), (snd (discrete_distribution L w e), l @ [DiscreteDraw w]))),
      uniform_real_distribution = (\<lambda>a b (e, l).
         (fst (uniform_real_distribution L a b e),
          (snd (uniform_real_distribution L a b e), l @ [UniformDraw a b]))),
      normal_distribution = (\<lambda>m sd (e, l).
         (fst (normal_distribution L m sd e),
          (snd (normal_distribution L m sd e), l @ [NormalDraw m sd])))\<rparr>"

text \<open>The same object over another engine.\<close>

definition with_engine :: "'e sampler \<Rightarrow> 'f \<Rightarrow> 'f sampler" where
  "with_engine s e =
     \<lparr>fVertexPosition = fVertexPosition s, fVertexType = fVertexType s,
      fTimeType = fTimeType s, fGeneratorName = fGeneratorName s,
      fT0 = fT0 s, fSigmaT = fSigmaT s, fTPCDist = fTPCDist s, fTPCEngine = e\<rparr>"

text \<open>The time draw of a call, as the log shows it.\<close>

definition time_draw :: "'e sampler \<Rightarrow> draw" where
  "time_draw s =
     (if fTimeType s = kGaussian then NormalDraw (fT0 s) (fSigmaT s)
      else UniformDraw (fT0 s - fSigmaT s) (fT0 s + fSigmaT s))"

subsection \<open>What is assumed of the standard library\<close>

text \<open>
  \<^verbatim>\<open>std::uniform_real_distribution\<close> with the parameters \<open>a \<le> b\<close> returns a value from \<open>a\<close>
  to \<open>b\<close> (the right end included, which rounding can reach).
\<close>

definition uniform_in_range :: "'e stdlib \<Rightarrow> bool" where
  "uniform_in_range L \<longleftrightarrow>
     (\<forall>a b e. a \<le> b \<longrightarrow>
        a \<le> fst (uniform_real_distribution L a b e) \<and> fst (uniform_real_distribution L a b e) \<le> b)"

text \<open>\<^verbatim>\<open>std::normal_distribution\<close> with standard deviation 0 returns its mean.\<close>

definition normal_zero_spread :: "'e stdlib \<Rightarrow> bool" where
  "normal_zero_spread L \<longleftrightarrow> (\<forall>m e. fst (normal_distribution L m 0 e) = m)"

text \<open>\<^verbatim>\<open>std::discrete_distribution\<close> over \<open>n > 0\<close> weights returns an index below \<open>n\<close>.\<close>

definition discrete_in_range :: "'e stdlib \<Rightarrow> bool" where
  "discrete_in_range L \<longleftrightarrow>
     (\<forall>w e. w \<noteq> [] \<longrightarrow> fst (discrete_distribution L w e) < length w)"

subsection \<open>A small library for concrete runs\<close>

text \<open>
  A stand-in for \<^verbatim>\<open><random>\<close> on which the sampler can be evaluated: the engine is a
  counter, a draw reads the counter and advances it by one. The fraction
  \<open>(e mod 4) / 4\<close> plays the uniform variate on \<open>[0, 1)\<close>, and \<open>(e mod 3) - 1\<close> the
  standard normal variate.
\<close>

definition counter_lib :: "nat stdlib" where
  "counter_lib =
     \<lparr>default_engine = 5489,
      seed_engine = (\<lambda>q. case q of [] \<Rightarrow> 0 | x # _ \<Rightarrow> unat x),
      discrete_distribution = (\<lambda>w e. (if w = [] then 0 else e mod length w, Suc e)),
      uniform_real_distribution = (\<lambda>a b e. (a + (b - a) * (real (e mod 4) / 4), Suc e)),
      normal_distribution = (\<lambda>m sd e. (m + sd * (real (e mod 3) - 1), Suc e))\<rparr>"

text \<open>The catalog of the specification's scenario: two cells, of mass 1 and 3.\<close>

definition two_cells :: Geometry where
  "two_cells =
     [\<lparr>MinX = 0, MaxX = 10, MinY = 0, MaxY = 10, MinZ = 0, MaxZ = 10, ActiveMass = 1\<rparr>,
      \<lparr>MinX = 100, MaxX = 110, MinY = 0, MaxY = 10, MinZ = 0, MaxZ = 10, ActiveMass = 3\<rparr>]"

definition sampled_conf :: Config where
  "sampled_conf =
     \<lparr>cfg_type = ''sampled'', cfg_seed = None, cfg_position = (0, 0, 0),
      cfg_min_position = (0, 0, 0), cfg_max_position = (0, 0, 0), cfg_check_active = None,
      cfg_T0 = 5, cfg_SigmaT = 1, cfg_time_type = ''uniform''\<rparr>"

definition fixed_conf :: Config where
  "fixed_conf =
     \<lparr>cfg_type = ''fixed'', cfg_seed = None, cfg_position = (1, 2, 3),
      cfg_min_position = (0, 0, 0), cfg_max_position = (0, 0, 0), cfg_check_active = None,
      cfg_T0 = 5, cfg_SigmaT = 1, cfg_time_type = ''gaussian''\<rparr>"

text \<open>A seed service that hands every engine the seed 42.\<close>

definition seed42 :: NuRandomService where
  "seed42 = (\<lambda>instance seed_param. 42)"

text \<open>A configured object in sampled mode and one in fixed mode, for concrete calls.\<close>

definition sampled_obj :: "nat sampler" where
  "sampled_obj =
     \<lparr>fVertexPosition = TLorentzVector0, fVertexType = kSampled, fTimeType = kUniform,
      fGeneratorName = ''MARLEY_Vertex_Sampler'', fT0 = 5, fSigmaT = 1,
      fTPCDist = Some [1, 3], fTPCEngine = 42\<rparr>"

definition fixed_obj :: "nat sampler" where
  "fixed_obj =
     \<lparr>fVertexPosition = \<lparr>X = 1, Y = 1, Z = 1, T = 0\<rparr>, fVertexType = kFixed,
      fTimeType = kGaussian, fGeneratorName = ''MARLEY_Vertex_Sampler'', fT0 = 5, fSigmaT = 1,
      fTPCDist = None, fTPCEngine = 42\<rparr>"

text \<open>
  The time sampler as the specification words it: under the uniform law one uniform draw
  on \<open>[t_center - t_spread, t_center + t_spread]\<close>, under the gaussian law one normal draw
  with mean \<open>t_center\<close> and standard deviation \<open>t_spread\<close>, from the shared engine. It is
  written from the specification's words, not from \<open>sample_time\<close>; the code is compared
  with it below.
\<close>

definition time_sampler_spec :: "'e stdlib \<Rightarrow> time_type_t \<Rightarrow> real \<Rightarrow> real \<Rightarrow> 'e \<Rightarrow> real \<times> 'e" where
  "time_sampler_spec L mode t_center t_spread e =
     (case mode of
        kUniform \<Rightarrow> uniform_real_distribution L (t_center - t_spread) (t_center + t_spread) e
      | kGaussian \<Rightarrow> normal_distribution L t_center t_spread e)"

text \<open>
  The times that \<open>n\<close> successive draws of that time sampler yield, starting from the
  engine \<open>e\<close>: each draw starts from the engine the draw before it left, and nothing else
  touches the engine in between.
\<close>

fun time_draws :: "'e stdlib \<Rightarrow> time_type_t \<Rightarrow> real \<Rightarrow> real \<Rightarrow> nat \<Rightarrow> 'e \<Rightarrow> real list" where
  "time_draws L mode t_center t_spread 0 e = []"
| "time_draws L mode t_center t_spread (Suc n) e =
     fst (time_sampler_spec L mode t_center t_spread e)
       # time_draws L mode t_center t_spread n (snd (time_sampler_spec L mode t_center t_spread e))"

text \<open>The object after \<open>n\<close> successive calls of \<^verbatim>\<open>sample_vertex_pos\<close>.\<close>

fun after_calls :: "'e stdlib \<Rightarrow> Geometry \<Rightarrow> nat \<Rightarrow> 'e sampler \<Rightarrow> 'e sampler" where
  "after_calls L geom 0 s = s"
| "after_calls L geom (Suc n) s = after_calls L geom n (fst (sample_vertex_pos L geom s))"

text \<open>More inputs for concrete runs.\<close>

definition zero_mass_cells :: Geometry where
  "zero_mass_cells =
     [\<lparr>MinX = 0, MaxX = 10, MinY = 0, MaxY = 10, MinZ = 0, MaxZ = 10, ActiveMass = 0\<rparr>]"

definition exponential_conf :: Config where
  "exponential_conf = fixed_conf\<lparr>cfg_time_type := ''exponential''\<rparr>"

definition negative_spread_conf :: Config where
  "negative_spread_conf = sampled_conf\<lparr>cfg_SigmaT := - 1\<rparr>"

definition seed_by_name :: NuRandomService where
  "seed_by_name = (\<lambda>instance seed_param. if instance = ''MARLEY_Vertex_Sampler'' then 42 else 7)"

definition zero_spread_conf :: Config where
  "zero_spread_conf = fixed_conf\<lparr>cfg_SigmaT := 0\<rparr>"

definition fixed_uniform_obj :: "nat sampler" where
  "fixed_uniform_obj =
     \<lparr>fVertexPosition = \<lparr>X = 1, Y = 1, Z = 1, T = 0\<rparr>, fVertexType = kFixed,
      fTimeType = kUniform, fGeneratorName = ''MARLEY_Vertex_Sampler'', fT0 = 5, fSigmaT = 1,
      fTPCDist = None, fTPCEngine = 42\<rparr>"

definition zero_spread_uniform_conf :: Config where
  "zero_spread_uniform_conf = sampled_conf\<lparr>cfg_SigmaT := 0\<rparr>"

definition zero_spread_uniform_obj :: "nat sampler" where
  "zero_spread_uniform_obj =
     \<lparr>fVertexPosition = \<lparr>X = 1, Y = 1, Z = 1, T = 0\<rparr>, fVertexType = kSampled,
      fTimeType = kUniform, fGeneratorName = ''MARLEY_Vertex_Sampler'', fT0 = 5, fSigmaT = 0,
      fTPCDist = Some [1, 3], fTPCEngine = 42\<rparr>"

definition zero_spread_obj :: "nat sampler" where
  "zero_spread_obj =
     \<lparr>fVertexPosition = \<lparr>X = 1, Y = 1, Z = 1, T = 0\<rparr>, fVertexType = kFixed,
      fTimeType = kGaussian, fGeneratorName = ''MARLEY_Vertex_Sampler'', fT0 = 5, fSigmaT = 0,
      fTPCDist = Some [1, 3], fTPCEngine = 42\<rparr>"

section \<open>Facts about the operations\<close>

subsection \<open>reconfigure\<close>

lemma tpc_masses_loop_drop:
  "iTPC \<le> length geom \<Longrightarrow>
   tpc_masses_loop geom (length geom) iTPC acc = Inr (acc @ map ActiveMass (drop iTPC geom))"
proof (induction "length geom - iTPC" arbitrary: iTPC acc)
  case 0
  then show ?case by (simp add: tpc_masses_loop.simps)
next
  case (Suc k)
  then have lt: "iTPC < length geom" by simp
  have step: "tpc_masses_loop geom (length geom) iTPC acc =
      tpc_masses_loop geom (length geom) (Suc iTPC) (acc @ [ActiveMass (geom ! iTPC)])"
    using lt by (subst tpc_masses_loop.simps) (simp add: TPC_def)
  have "k = length geom - Suc iTPC" using Suc.hyps(2) by simp
  moreover have "Suc iTPC \<le> length geom" using lt by simp
  ultimately have "tpc_masses_loop geom (length geom) (Suc iTPC) (acc @ [ActiveMass (geom ! iTPC)]) =
      Inr ((acc @ [ActiveMass (geom ! iTPC)]) @ map ActiveMass (drop (Suc iTPC) geom))"
    by (rule Suc.hyps(1))
  moreover have "drop iTPC geom = geom ! iTPC # drop (Suc iTPC) geom"
    using lt by (simp add: Cons_nth_drop_Suc)
  ultimately show ?case using step by simp
qed

lemma tpc_masses_loop_all:
  "tpc_masses_loop geom (NTPC geom) 0 [] = Inr (map ActiveMass geom)"
  using tpc_masses_loop_drop [of 0 geom "[]"] by (simp add: NTPC_def)

lemma reconfigure_vertex_sampled:
  "cfg_type conf = ''sampled'' \<Longrightarrow>
   reconfigure_vertex conf geom s =
     (s\<lparr>fVertexType := kSampled, fTPCDist := Some (map ActiveMass geom)\<rparr>, None)"
  by (simp add: reconfigure_vertex_def tpc_masses_loop_all)

lemma reconfigure_vertex_fixed:
  "cfg_type conf = ''fixed'' \<Longrightarrow>
   reconfigure_vertex conf geom s =
     (s\<lparr>fVertexType := kFixed,
        fVertexPosition := \<lparr>X = fst (cfg_position conf), Y = fst (cfg_position conf),
                            Z = fst (cfg_position conf), T = 0\<rparr>\<rparr>, None)"
  by (cases "cfg_position conf") (simp add: reconfigure_vertex_def SetXYZT_def)

lemma reconfigure_vertex_other:
  "cfg_type conf \<noteq> ''sampled'' \<Longrightarrow> cfg_type conf \<noteq> ''fixed'' \<Longrightarrow>
   fst (reconfigure_vertex conf geom s) = s \<and>
   (\<exists>msg. snd (reconfigure_vertex conf geom s) =
       Some (cet_exception (''ActiveVolumeVertexSampler '' @ fGeneratorName s) msg))"
  by (simp add: reconfigure_vertex_def Let_def)

lemma reconfigure_time_ok:
  "cfg_time_type conf = ''uniform'' \<or> cfg_time_type conf = ''gaussian'' \<Longrightarrow>
   reconfigure_time conf s =
     (s\<lparr>fTimeType := (if cfg_time_type conf = ''uniform'' then kUniform else kGaussian),
        fT0 := cfg_T0 conf, fSigmaT := cfg_SigmaT conf\<rparr>, None)"
  by (auto simp add: reconfigure_time_def Let_def)

lemma reconfigure_time_other:
  "cfg_time_type conf \<noteq> ''uniform'' \<Longrightarrow> cfg_time_type conf \<noteq> ''gaussian'' \<Longrightarrow>
   fst (reconfigure_time conf s) = s \<and>
   (\<exists>msg. snd (reconfigure_time conf s) =
       Some (cet_exception (''ActiveVolumeVertexSampler '' @ fGeneratorName s) msg))"
  by (simp add: reconfigure_time_def Let_def)

subsection \<open>sample_vertex_pos\<close>

lemma sample_vertex_pos_fixed:
  "fVertexType s = kFixed \<Longrightarrow>
   sample_vertex_pos L geom s =
     (s\<lparr>fTPCEngine := snd (sample_time L s),
        fVertexPosition := (fVertexPosition s)\<lparr>T := fst (sample_time L s)\<rparr>\<rparr>,
      Inr ((fVertexPosition s)\<lparr>T := fst (sample_time L s)\<rparr>))"
  by (simp add: sample_vertex_pos_def sample_position_def SetT_def split_beta)

lemma logged_simps:
  "discrete_distribution (logged L) w (e, l) =
     (fst (discrete_distribution L w e), (snd (discrete_distribution L w e), l @ [DiscreteDraw w]))"
  "uniform_real_distribution (logged L) a b (e, l) =
     (fst (uniform_real_distribution L a b e), (snd (uniform_real_distribution L a b e), l @ [UniformDraw a b]))"
  "normal_distribution (logged L) m sd (e, l) =
     (fst (normal_distribution L m sd e), (snd (normal_distribution L m sd e), l @ [NormalDraw m sd]))"
  by (simp_all add: logged_def)

lemma with_engine_simps:
  "fVertexPosition (with_engine s e) = fVertexPosition s"
  "fVertexType (with_engine s e) = fVertexType s"
  "fTimeType (with_engine s e) = fTimeType s"
  "fGeneratorName (with_engine s e) = fGeneratorName s"
  "fT0 (with_engine s e) = fT0 s"
  "fSigmaT (with_engine s e) = fSigmaT s"
  "fTPCDist (with_engine s e) = fTPCDist s"
  "fTPCEngine (with_engine s e) = e"
  by (simp_all add: with_engine_def)

lemma sample_vertex_pos_sampled_returns:
  assumes "fVertexType s = kSampled" and "snd (sample_vertex_pos L geom s) = Inr v"
  shows "\<exists>w. fTPCDist s = Some w \<and> fst (discrete_distribution L w (fTPCEngine s)) < length geom"
  using assms
  by (auto simp add: sample_vertex_pos_def sample_position_def TPC_def split_beta Let_def
      split: option.splits if_splits)

lemma sample_vertex_pos_frame:
  "fVertexType (fst (sample_vertex_pos L geom s)) = fVertexType s \<and>
   fTimeType (fst (sample_vertex_pos L geom s)) = fTimeType s \<and>
   fGeneratorName (fst (sample_vertex_pos L geom s)) = fGeneratorName s \<and>
   fT0 (fst (sample_vertex_pos L geom s)) = fT0 s \<and>
   fSigmaT (fst (sample_vertex_pos L geom s)) = fSigmaT s \<and>
   fTPCDist (fst (sample_vertex_pos L geom s)) = fTPCDist s"
  by (simp add: sample_vertex_pos_def sample_position_def TPC_def split_beta Let_def
      split: option.splits sum.splits)

text \<open>
  When a call returns a vertex: always in fixed mode; in sampled mode when the weights
  are the masses of a non-empty geometry, the same geometry the call is given, and the
  library draws an index below the number of weights.
\<close>

lemma sample_vertex_pos_fixed_returns:
  "fVertexType s = kFixed \<Longrightarrow> \<exists>v. snd (sample_vertex_pos L geom s) = Inr v"
  by (simp add: sample_vertex_pos_fixed)

lemma sample_vertex_pos_sampled_total:
  assumes "discrete_in_range L" and "geom \<noteq> []"
    and "fVertexType s = kSampled" and "fTPCDist s = Some (map ActiveMass geom)"
  shows "\<exists>v. snd (sample_vertex_pos L geom s) = Inr v"
proof -
  have "map ActiveMass geom \<noteq> []" using assms(2) by simp
  with assms(1)
  have "fst (discrete_distribution L (map ActiveMass geom) (fTPCEngine s)) < length (map ActiveMass geom)"
    unfolding discrete_in_range_def by blast
  then have "fst (discrete_distribution L (map ActiveMass geom) (fTPCEngine s)) < length geom"
    by simp
  then show ?thesis
    using assms(3,4)
    by (simp add: sample_vertex_pos_def sample_position_def TPC_def split_beta Let_def)
qed

lemma logged_faithful:
  "snd (sample_vertex_pos (logged L) geom (with_engine s (fTPCEngine s, l))) =
     snd (sample_vertex_pos L geom s) \<and>
   with_engine (fst (sample_vertex_pos (logged L) geom (with_engine s (fTPCEngine s, l))))
     (fst (fTPCEngine (fst (sample_vertex_pos (logged L) geom (with_engine s (fTPCEngine s, l))))))
     = fst (sample_vertex_pos L geom s)"
proof (cases "fVertexType s")
  case kFixed
  then show ?thesis
    by (simp add: sample_vertex_pos_def sample_position_def sample_time_def split_beta Let_def
        logged_simps with_engine_def SetT_def)
next
  case kSampled
  show ?thesis
  proof (cases "fTPCDist s")
    case None
    then show ?thesis using kSampled
      by (simp add: sample_vertex_pos_def sample_position_def with_engine_def)
  next
    case (Some w)
    show ?thesis
    proof (cases "fst (discrete_distribution L w (fTPCEngine s)) < length geom")
      case True
      then show ?thesis using kSampled Some
        by (simp add: sample_vertex_pos_def sample_position_def sample_time_def TPC_def split_beta
            Let_def logged_simps with_engine_def SetT_def SetXYZT_def)
    next
      case False
      then show ?thesis using kSampled Some
        by (simp add: sample_vertex_pos_def sample_position_def TPC_def split_beta
            Let_def logged_simps with_engine_def)
    qed
  qed
qed

lemma sample_vertex_pos_sampled_coords:
  assumes "fVertexType s = kSampled" and "snd (sample_vertex_pos L geom s) = Inr v"
    and "fTPCDist s = Some w"
  shows "\<exists>e1 e2 e3.
      X v = fst (uniform_real_distribution L
                   (MinX (geom ! fst (discrete_distribution L w (fTPCEngine s))))
                   (MaxX (geom ! fst (discrete_distribution L w (fTPCEngine s)))) e1) \<and>
      Y v = fst (uniform_real_distribution L
                   (MinY (geom ! fst (discrete_distribution L w (fTPCEngine s))))
                   (MaxY (geom ! fst (discrete_distribution L w (fTPCEngine s)))) e2) \<and>
      Z v = fst (uniform_real_distribution L
                   (MinZ (geom ! fst (discrete_distribution L w (fTPCEngine s))))
                   (MaxZ (geom ! fst (discrete_distribution L w (fTPCEngine s)))) e3)"
proof -
  from sample_vertex_pos_sampled_returns [OF assms(1,2)] assms(3)
  have i: "fst (discrete_distribution L w (fTPCEngine s)) < length geom" by simp
  show ?thesis
    using assms i
    by (auto simp add: sample_vertex_pos_def sample_position_def TPC_def split_beta Let_def
        SetXYZT_def SetT_def)
qed

lemma uniform_in_rangeD:
  "uniform_in_range L \<Longrightarrow> a \<le> b \<Longrightarrow>
   a \<le> fst (uniform_real_distribution L a b e) \<and> fst (uniform_real_distribution L a b e) \<le> b"
  by (simp add: uniform_in_range_def)

lemma sample_time_zero_spread:
  assumes "uniform_in_range L" and "normal_zero_spread L" and "fSigmaT s = 0"
  shows "fst (sample_time L s) = fT0 s"
proof (cases "fTimeType s = kGaussian")
  case True
  then show ?thesis using assms(2,3) by (simp add: sample_time_def normal_zero_spread_def)
next
  case False
  then show ?thesis
    using uniform_in_rangeD [OF assms(1), of "fT0 s" "fT0 s" "fTPCEngine s"] assms(3)
    by (simp add: sample_time_def)
qed

lemma sample_vertex_pos_time:
  "snd (sample_vertex_pos L geom s) = Inr v \<Longrightarrow>
   \<exists>e. T v = fst (sample_time L (s\<lparr>fTPCEngine := e\<rparr>))"
  by (auto simp add: sample_vertex_pos_def sample_position_def TPC_def split_beta Let_def
      SetXYZT_def SetT_def sample_time_def split: option.splits if_splits sum.splits)

lemma sample_time_spec:
  "sample_time L s = time_sampler_spec L (fTimeType s) (fT0 s) (fSigmaT s) (fTPCEngine s)"
  by (cases "fTimeType s") (simp_all add: sample_time_def time_sampler_spec_def)

lemma sample_calls_zero_spread:
  assumes "uniform_in_range L" and "normal_zero_spread L"
  shows "fSigmaT s = 0 \<Longrightarrow> Inr v \<in> set (sample_calls L geom n s) \<Longrightarrow> T v = fT0 s"
proof (induction n arbitrary: s)
  case 0
  then show ?case by simp
next
  case (Suc n)
  obtain s' r where call: "sample_vertex_pos L geom s = (s', r)" by (cases "sample_vertex_pos L geom s")
  have fr: "fSigmaT s' = fSigmaT s" "fT0 s' = fT0 s"
    using sample_vertex_pos_frame [of L geom s] call by simp_all
  from Suc.prems(2) call have "r = Inr v \<or> Inr v \<in> set (sample_calls L geom n s')" by auto
  then show ?case
  proof
    assume "r = Inr v"
    then have "snd (sample_vertex_pos L geom s) = Inr v" using call by simp
    from sample_vertex_pos_time [OF this]
    obtain e where "T v = fst (sample_time L (s\<lparr>fTPCEngine := e\<rparr>))" by blast
    moreover have "fst (sample_time L (s\<lparr>fTPCEngine := e\<rparr>)) = fT0 (s\<lparr>fTPCEngine := e\<rparr>)"
      using Suc.prems(1) by (intro sample_time_zero_spread [OF assms]) simp
    ultimately show ?thesis by simp
  next
    assume "Inr v \<in> set (sample_calls L geom n s')"
    then have "T v = fT0 s'" using Suc.prems(1) fr by (intro Suc.IH) simp_all
    then show ?thesis using fr by simp
  qed
qed

lemma reconfigure_ok_time:
  "reconfigure conf geom s0 = (s, None) \<Longrightarrow> fT0 s = cfg_T0 conf \<and> fSigmaT s = cfg_SigmaT conf"
  by (auto simp add: reconfigure_def reconfigure_time_def Let_def
      split: prod.splits option.splits if_splits)

lemma sample_calls_fixed:
  "fVertexType s = kFixed \<Longrightarrow>
   sample_calls L geom n s =
     map (\<lambda>t. Inr ((fVertexPosition s)\<lparr>T := t\<rparr>))
       (time_draws L (fTimeType s) (fT0 s) (fSigmaT s) n (fTPCEngine s))"
proof (induction n arbitrary: s)
  case 0
  then show ?case by simp
next
  case (Suc n)
  let ?d = "time_sampler_spec L (fTimeType s) (fT0 s) (fSigmaT s) (fTPCEngine s)"
  let ?s' = "s\<lparr>fTPCEngine := snd ?d, fVertexPosition := (fVertexPosition s)\<lparr>T := fst ?d\<rparr>\<rparr>"
  have call: "sample_vertex_pos L geom s = (?s', Inr ((fVertexPosition s)\<lparr>T := fst ?d\<rparr>))"
    using sample_vertex_pos_fixed [OF Suc.prems, of L geom] by (simp add: sample_time_spec)
  have "fVertexType ?s' = kFixed" using Suc.prems by simp
  then have ih: "sample_calls L geom n ?s' =
      map (\<lambda>t. Inr ((fVertexPosition ?s')\<lparr>T := t\<rparr>))
        (time_draws L (fTimeType ?s') (fT0 ?s') (fSigmaT ?s') n (fTPCEngine ?s'))"
    by (rule Suc.IH)
  show ?case by (simp add: call ih)
qed

lemma time_draws_length: "length (time_draws L mode t_center t_spread n e) = n"
  by (induction n arbitrary: e) simp_all

lemma time_draw_frame:
  "fTimeType s' = fTimeType s \<Longrightarrow> fT0 s' = fT0 s \<Longrightarrow> fSigmaT s' = fSigmaT s \<Longrightarrow>
   time_draw s' = time_draw s"
  by (simp add: time_draw_def)

lemma logged_fixed_call:
  "fVertexType s = kFixed \<Longrightarrow>
   fst (sample_vertex_pos (logged L) geom (with_engine s (e, l))) =
     with_engine
       (s\<lparr>fVertexPosition := (fVertexPosition s)\<lparr>T := fst (sample_time L (s\<lparr>fTPCEngine := e\<rparr>))\<rparr>\<rparr>)
       (snd (sample_time L (s\<lparr>fTPCEngine := e\<rparr>)), l @ [time_draw s])"
  by (simp add: sample_vertex_pos_def sample_position_def sample_time_def split_beta Let_def
      logged_simps with_engine_def SetT_def time_draw_def)

lemma after_calls_fixed_log:
  "fVertexType (s :: 'e sampler) = kFixed \<Longrightarrow>
   snd (fTPCEngine (after_calls (logged (L :: 'e stdlib)) geom n (with_engine s (e, l)))) =
     l @ replicate n (time_draw s)"
proof (induction n arbitrary: s e l)
  case 0
  then show ?case by (simp add: with_engine_simps)
next
  case (Suc n)
  let ?s' = "s\<lparr>fVertexPosition :=
                 (fVertexPosition s)\<lparr>T := fst (sample_time L (s\<lparr>fTPCEngine := e\<rparr>))\<rparr>\<rparr>"
  let ?e' = "snd (sample_time L (s\<lparr>fTPCEngine := e\<rparr>))"
  have fx: "fVertexType ?s' = kFixed" using Suc.prems by simp
  have td: "time_draw ?s' = time_draw s" by (rule time_draw_frame) simp_all
  have "snd (fTPCEngine (after_calls (logged L) geom n (with_engine ?s' (?e', l @ [time_draw s])))) =
          (l @ [time_draw s]) @ replicate n (time_draw ?s')"
    using fx by (rule Suc.IH)
  then show ?case
    by (simp add: logged_fixed_call [OF Suc.prems] td)
qed

subsection \<open>The constructor\<close>

lemma ctor_deterministic:
  "svc1 name (cfg_seed conf) = svc2 name (cfg_seed conf) \<Longrightarrow>
   ActiveVolumeVertexSampler L svc1 conf geom name u1 = ActiveVolumeVertexSampler L svc2 conf geom name u2"
  by (cases "cfg_position conf")
     (simp add: ActiveVolumeVertexSampler_def reconfigure_def reconfigure_vertex_def
        reconfigure_time_def Let_def tpc_masses_loop_all)

lemma ctor_position:
  "cfg_type conf = ''fixed'' \<Longrightarrow>
   ActiveVolumeVertexSampler L svc (conf\<lparr>cfg_position := (px, py, pz)\<rparr>) geom name u =
   ActiveVolumeVertexSampler L svc (conf\<lparr>cfg_position := (px, py', pz')\<rparr>) geom name u"
  by (simp add: ActiveVolumeVertexSampler_def reconfigure_def reconfigure_vertex_def
        reconfigure_time_def Let_def)

subsection \<open>The small library and the concrete objects\<close>

lemma counter_lib_simps:
  "default_engine counter_lib = 5489"
  "seed_engine counter_lib [x] = unat x"
  "discrete_distribution counter_lib w e = (if w = [] then 0 else e mod length w, Suc e)"
  "uniform_real_distribution counter_lib a b e = (a + (b - a) * (real (e mod 4) / 4), Suc e)"
  "normal_distribution counter_lib m sd e = (m + sd * (real (e mod 3) - 1), Suc e)"
  by (simp_all add: counter_lib_def)

lemma counter_lib_uniform: "uniform_in_range counter_lib"
proof -
  have "a \<le> a + (b - a) * (real (e mod 4) / 4) \<and> a + (b - a) * (real (e mod 4) / 4) \<le> b"
    if ab: "a \<le> b" for a b :: real and e :: nat
  proof -
    have u0: "0 \<le> real (e mod 4) / 4" by simp
    have "e mod 4 < 4" by simp
    then have u1: "real (e mod 4) / 4 \<le> 1" by simp
    have d: "0 \<le> b - a" using ab by simp
    have lo: "0 \<le> (b - a) * (real (e mod 4) / 4)" using d u0 by (rule mult_nonneg_nonneg)
    have hi: "(b - a) * (real (e mod 4) / 4) \<le> (b - a) * 1" using u1 d by (rule mult_left_mono)
    show ?thesis using lo hi by simp
  qed
  then show ?thesis by (simp add: uniform_in_range_def counter_lib_simps)
qed

lemma counter_lib_normal: "normal_zero_spread counter_lib"
  by (simp add: normal_zero_spread_def counter_lib_simps)

lemma two_cells_masses: "map ActiveMass two_cells = [1, 3]"
  by (simp add: two_cells_def)

lemma ctor_sampled_obj:
  "ActiveVolumeVertexSampler counter_lib seed42 sampled_conf two_cells ''MARLEY_Vertex_Sampler'' u
     = Inr sampled_obj"
  by (simp add: ActiveVolumeVertexSampler_def reconfigure_def reconfigure_vertex_sampled
      reconfigure_time_def sampled_conf_def two_cells_masses sampled_obj_def seed42_def
      counter_lib_simps)

lemma ctor_fixed_obj:
  "ActiveVolumeVertexSampler counter_lib seed42 fixed_conf two_cells ''MARLEY_Vertex_Sampler'' u
     = Inr fixed_obj"
  by (simp add: ActiveVolumeVertexSampler_def reconfigure_def reconfigure_vertex_fixed
      reconfigure_time_def fixed_conf_def fixed_obj_def seed42_def TLorentzVector0_def
      counter_lib_simps)

lemma fixed_obj_calls:
  "sample_calls counter_lib two_cells 2 fixed_obj =
     [Inr \<lparr>X = 1, Y = 1, Z = 1, T = 4\<rparr>, Inr \<lparr>X = 1, Y = 1, Z = 1, T = 5\<rparr>]"
  by (simp add: numeral_2_eq_2 sample_vertex_pos_fixed fixed_obj_def sample_time_def counter_lib_simps)

lemma sampled_obj_call:
  "sample_vertex_pos counter_lib two_cells sampled_obj =
     (sampled_obj\<lparr>fTPCEngine := 47, fVertexPosition := \<lparr>X = 15 / 2, Y = 0, Z = 5 / 2, T = 5\<rparr>\<rparr>,
      Inr \<lparr>X = 15 / 2, Y = 0, Z = 5 / 2, T = 5\<rparr>)"
  by code_simp

lemma counter_lib_first_index: "fst (discrete_distribution counter_lib [1, 3] 42) = 0"
  by code_simp

lemma sampled_obj_fields:
  "fVertexType sampled_obj = kSampled" "fTPCDist sampled_obj = Some [1, 3]"
  "fTPCEngine sampled_obj = 42" "fTimeType sampled_obj = kUniform"
  "fT0 sampled_obj = 5" "fSigmaT sampled_obj = 1"
  "fGeneratorName sampled_obj = ''MARLEY_Vertex_Sampler''"
  "fVertexPosition sampled_obj = \<lparr>X = 0, Y = 0, Z = 0, T = 0\<rparr>"
  by (simp_all add: sampled_obj_def TLorentzVector0_def)

section \<open>The claims\<close>

subsection \<open>C1: the fixed position\<close>

text \<open>
  C1 says that in fixed mode the \<open>(x, y, z)\<close> of every returned vertex is the configured
  position \<open>(px, py, pz)\<close>. \<^verbatim>\<open>reconfigure\<close> reads \<^verbatim>\<open>vertex_pos.at(0)\<close> for all three of
  \<^verbatim>\<open>Vx\<close>, \<^verbatim>\<open>Vy\<close> and \<^verbatim>\<open>Vz\<close>: configured with the position \<open>(1, 2, 3)\<close>, the sampler
  returns \<open>(1, 1, 1)\<close> on every call.
\<close>

theorem fixed_position_copies_first_component:
  "cfg_position fixed_conf = (1, 2, 3) \<and>
   sampler_run counter_lib seed42 fixed_conf two_cells ''MARLEY_Vertex_Sampler'' kUniform 2 =
     Inr [Inr \<lparr>X = 1, Y = 1, Z = 1, T = 4\<rparr>, Inr \<lparr>X = 1, Y = 1, Z = 1, T = 5\<rparr>]"
  by (simp add: sampler_run_def ctor_fixed_obj fixed_obj_calls) (simp add: fixed_conf_def)

subsection \<open>C2: an unrecognised time type\<close>

text \<open>
  C2 says that \<^verbatim>\<open>reconfigure\<close> with an unrecognised \<^verbatim>\<open>time_type\<close> raises and leaves the
  whole state of a configured sampler as it was. It raises, but the dispatch on \<^verbatim>\<open>type\<close>
  has run by then: a sampler constructed in sampled mode and reconfigured with type
  \<^verbatim>\<open>fixed\<close> and time type \<^verbatim>\<open>exponential\<close> is left in fixed mode with a new position.
\<close>

theorem bad_time_type_changes_vertex_mode:
  "ActiveVolumeVertexSampler counter_lib seed42 sampled_conf two_cells ''MARLEY_Vertex_Sampler'' kUniform
     = Inr sampled_obj \<and>
   cfg_time_type exponential_conf = ''exponential'' \<and>
   snd (reconfigure exponential_conf two_cells sampled_obj) \<noteq> None \<and>
   fVertexType sampled_obj = kSampled \<and>
   fVertexType (fst (reconfigure exponential_conf two_cells sampled_obj)) = kFixed \<and>
   fVertexPosition sampled_obj = \<lparr>X = 0, Y = 0, Z = 0, T = 0\<rparr> \<and>
   fVertexPosition (fst (reconfigure exponential_conf two_cells sampled_obj))
     = \<lparr>X = 1, Y = 1, Z = 1, T = 0\<rparr>"
proof -
  have ty: "cfg_type exponential_conf = ''fixed''"
    and tt: "cfg_time_type exponential_conf = ''exponential''"
    and pos: "cfg_position exponential_conf = (1, 2, 3)"
    by (simp_all add: exponential_conf_def fixed_conf_def)
  have "fst (reconfigure exponential_conf two_cells sampled_obj) =
          sampled_obj\<lparr>fVertexType := kFixed, fVertexPosition := \<lparr>X = 1, Y = 1, Z = 1, T = 0\<rparr>\<rparr>"
    and "snd (reconfigure exponential_conf two_cells sampled_obj) \<noteq> None"
    by (simp_all add: reconfigure_def reconfigure_vertex_fixed [OF ty] reconfigure_time_def tt pos)
  then show ?thesis
    by (simp add: ctor_sampled_obj tt sampled_obj_fields)
qed

text \<open>
  C2 as amended: \<^verbatim>\<open>reconfigure\<close> with an unrecognised \<^verbatim>\<open>time_type\<close> raises a
  \<^verbatim>\<open>cet::exception\<close> and leaves the time type, \<^verbatim>\<open>fT0\<close>, \<^verbatim>\<open>fSigmaT\<close>, the engine and the
  generator name as they were. The vertex mode, and with it the cell distribution
  (type \<^verbatim>\<open>sampled\<close>) or the stored position (type \<^verbatim>\<open>fixed\<close>), are by then those of the
  new configuration; the whole state is unchanged when the type is unrecognised too.
\<close>

theorem bad_time_type_raises:
  assumes "cfg_time_type conf \<noteq> ''uniform''" and "cfg_time_type conf \<noteq> ''gaussian''"
  shows "(\<exists>msg. snd (reconfigure conf geom s) =
            Some (cet_exception (''ActiveVolumeVertexSampler '' @ fGeneratorName s) msg)) \<and>
         fTimeType (fst (reconfigure conf geom s)) = fTimeType s \<and>
         fT0 (fst (reconfigure conf geom s)) = fT0 s \<and>
         fSigmaT (fst (reconfigure conf geom s)) = fSigmaT s \<and>
         fTPCEngine (fst (reconfigure conf geom s)) = fTPCEngine s \<and>
         fGeneratorName (fst (reconfigure conf geom s)) = fGeneratorName s \<and>
         (cfg_type conf = ''sampled'' \<longrightarrow>
            fVertexType (fst (reconfigure conf geom s)) = kSampled \<and>
            fTPCDist (fst (reconfigure conf geom s)) = Some (map ActiveMass geom) \<and>
            fVertexPosition (fst (reconfigure conf geom s)) = fVertexPosition s) \<and>
         (cfg_type conf = ''fixed'' \<longrightarrow>
            fVertexType (fst (reconfigure conf geom s)) = kFixed \<and>
            fTPCDist (fst (reconfigure conf geom s)) = fTPCDist s \<and>
            X (fVertexPosition (fst (reconfigure conf geom s))) = fst (cfg_position conf) \<and>
            T (fVertexPosition (fst (reconfigure conf geom s))) = 0) \<and>
         (cfg_type conf \<noteq> ''sampled'' \<and> cfg_type conf \<noteq> ''fixed'' \<longrightarrow>
            fst (reconfigure conf geom s) = s)"
proof -
  consider (sampled) "cfg_type conf = ''sampled''" | (fixed) "cfg_type conf = ''fixed''"
    | (other) "cfg_type conf \<noteq> ''sampled''" "cfg_type conf \<noteq> ''fixed''"
    by blast
  then show ?thesis
  proof cases
    case sampled
    then show ?thesis
      using assms
      by (simp add: reconfigure_def reconfigure_vertex_sampled reconfigure_time_def Let_def)
  next
    case fixed
    then show ?thesis
      using assms
      by (simp add: reconfigure_def reconfigure_vertex_fixed reconfigure_time_def Let_def)
  next
    case other
    then show ?thesis
      by (simp add: reconfigure_def reconfigure_vertex_def Let_def)
  qed
qed

theorem bad_time_type_raises_witness:
  "cfg_time_type exponential_conf \<noteq> ''uniform'' \<and>
   cfg_time_type exponential_conf \<noteq> ''gaussian'' \<and>
   cfg_type exponential_conf = ''fixed'' \<and>
   snd (reconfigure exponential_conf two_cells sampled_obj) \<noteq> None \<and>
   fTimeType (fst (reconfigure exponential_conf two_cells sampled_obj)) = kUniform \<and>
   fT0 (fst (reconfigure exponential_conf two_cells sampled_obj)) = 5 \<and>
   fSigmaT (fst (reconfigure exponential_conf two_cells sampled_obj)) = 1 \<and>
   fTPCEngine (fst (reconfigure exponential_conf two_cells sampled_obj)) = 42 \<and>
   fVertexType (fst (reconfigure exponential_conf two_cells sampled_obj)) = kFixed \<and>
   fTPCDist (fst (reconfigure exponential_conf two_cells sampled_obj)) = Some [1, 3]"
proof -
  have ty: "cfg_type exponential_conf = ''fixed''"
    and t1: "cfg_time_type exponential_conf \<noteq> ''uniform''"
    and t2: "cfg_time_type exponential_conf \<noteq> ''gaussian''"
    by (simp_all add: exponential_conf_def fixed_conf_def)
  from bad_time_type_raises [OF t1 t2, of two_cells sampled_obj] ty t1 t2
  show ?thesis
    by (auto simp add: sampled_obj_fields)
qed

subsection \<open>C3: a catalog of total mass zero\<close>

text \<open>
  C3 says that a sampled configuration whose catalog has total active mass zero fails
  at \<^verbatim>\<open>reconfigure\<close>. \<^verbatim>\<open>reconfigure\<close> never looks at the masses it collects: over a
  catalog of one cell of mass zero the constructor returns a sampler, whose cell
  distribution is built from the weights \<open>[0]\<close>.
\<close>

theorem zero_mass_catalog_accepted:
  "sum_list (map ActiveMass zero_mass_cells) = 0 \<and>
   cfg_type sampled_conf = ''sampled'' \<and>
   ActiveVolumeVertexSampler counter_lib seed42 sampled_conf zero_mass_cells ''MARLEY_Vertex_Sampler'' kUniform
     = Inr (sampled_obj\<lparr>fTPCDist := Some [0]\<rparr>)"
proof -
  have m: "map ActiveMass zero_mass_cells = [0]" by (simp add: zero_mass_cells_def)
  have "ActiveVolumeVertexSampler counter_lib seed42 sampled_conf zero_mass_cells
          ''MARLEY_Vertex_Sampler'' kUniform = Inr (sampled_obj\<lparr>fTPCDist := Some [0]\<rparr>)"
    by (simp add: ActiveVolumeVertexSampler_def reconfigure_def reconfigure_vertex_sampled
        reconfigure_time_def sampled_conf_def m sampled_obj_def seed42_def counter_lib_simps)
  then show ?thesis by (simp add: m) (simp add: sampled_conf_def)
qed

text \<open>
  C3 as amended: in sampled mode \<^verbatim>\<open>reconfigure\<close> never rejects a catalog for its masses,
  a total of zero included: it throws exactly when the time type is unrecognised, and it
  always hands the masses, unchanged and in index order, to the cell distribution as
  weights. What \<^verbatim>\<open>std::discrete_distribution\<close> makes of weights that are all zero is the
  standard library's affair.
\<close>

theorem sampled_reconfigure_ignores_masses:
  assumes "cfg_type conf = ''sampled''"
  shows "(snd (reconfigure conf geom s) = None) =
           (cfg_time_type conf = ''uniform'' \<or> cfg_time_type conf = ''gaussian'') \<and>
         fVertexType (fst (reconfigure conf geom s)) = kSampled \<and>
         fTPCDist (fst (reconfigure conf geom s)) = Some (map ActiveMass geom)"
  using assms
  by (simp add: reconfigure_def reconfigure_vertex_sampled reconfigure_time_def Let_def)

theorem sampled_reconfigure_ignores_masses_witness:
  "cfg_type sampled_conf = ''sampled'' \<and>
   sum_list (map ActiveMass zero_mass_cells) = 0 \<and>
   snd (reconfigure sampled_conf zero_mass_cells fixed_obj) = None \<and>
   fVertexType (fst (reconfigure sampled_conf zero_mass_cells fixed_obj)) = kSampled \<and>
   fTPCDist (fst (reconfigure sampled_conf zero_mass_cells fixed_obj)) = Some [0]"
proof -
  have ty: "cfg_type sampled_conf = ''sampled''" and tt: "cfg_time_type sampled_conf = ''uniform''"
    by (simp_all add: sampled_conf_def)
  have m: "map ActiveMass zero_mass_cells = [0]" by (simp add: zero_mass_cells_def)
  from sampled_reconfigure_ignores_masses [OF ty, of zero_mass_cells fixed_obj]
  show ?thesis by (simp add: ty tt m)
qed

subsection \<open>C4: a negative spread\<close>

text \<open>
  C4 says that \<^verbatim>\<open>reconfigure\<close> raises for a negative \<^verbatim>\<open>SigmaT\<close>. There is no check of
  \<^verbatim>\<open>SigmaT\<close>: the constructor accepts \<open>SigmaT = -1\<close> and stores it.
\<close>

theorem negative_SigmaT_accepted:
  "cfg_SigmaT negative_spread_conf = - 1 \<and>
   ActiveVolumeVertexSampler counter_lib seed42 negative_spread_conf two_cells ''MARLEY_Vertex_Sampler'' kUniform
     = Inr (sampled_obj\<lparr>fSigmaT := - 1\<rparr>)"
proof -
  have "ActiveVolumeVertexSampler counter_lib seed42 negative_spread_conf two_cells
          ''MARLEY_Vertex_Sampler'' kUniform = Inr (sampled_obj\<lparr>fSigmaT := - 1\<rparr>)"
    by (simp add: ActiveVolumeVertexSampler_def reconfigure_def reconfigure_vertex_sampled
        reconfigure_time_def negative_spread_conf_def sampled_conf_def two_cells_masses
        sampled_obj_def seed42_def counter_lib_simps)
  then show ?thesis by (simp add: negative_spread_conf_def)
qed

text \<open>
  C4 as amended: \<^verbatim>\<open>reconfigure\<close> raises exactly when \<^verbatim>\<open>type\<close> or \<^verbatim>\<open>time_type\<close> is
  unrecognised. No numeric parameter is range-checked: when it returns, \<^verbatim>\<open>fSigmaT\<close> is the
  configured \<^verbatim>\<open>SigmaT\<close> and \<^verbatim>\<open>fT0\<close> the configured \<^verbatim>\<open>T0\<close>, whatever their values.
\<close>

theorem reconfigure_raises_iff_unrecognised:
  "(snd (reconfigure conf geom s) = None) =
     ((cfg_type conf = ''sampled'' \<or> cfg_type conf = ''fixed'') \<and>
      (cfg_time_type conf = ''uniform'' \<or> cfg_time_type conf = ''gaussian'')) \<and>
   (snd (reconfigure conf geom s) = None \<longrightarrow>
      fSigmaT (fst (reconfigure conf geom s)) = cfg_SigmaT conf \<and>
      fT0 (fst (reconfigure conf geom s)) = cfg_T0 conf)"
proof -
  consider (sampled) "cfg_type conf = ''sampled''" | (fixed) "cfg_type conf = ''fixed''"
    | (other) "cfg_type conf \<noteq> ''sampled''" "cfg_type conf \<noteq> ''fixed''"
    by blast
  then show ?thesis
  proof cases
    case sampled
    then show ?thesis
      by (simp add: reconfigure_def reconfigure_vertex_sampled reconfigure_time_def Let_def)
  next
    case fixed
    then show ?thesis
      by (simp add: reconfigure_def reconfigure_vertex_fixed reconfigure_time_def Let_def)
  next
    case other
    then show ?thesis
      by (simp add: reconfigure_def reconfigure_vertex_def Let_def)
  qed
qed

theorem reconfigure_raises_iff_unrecognised_witness:
  "cfg_SigmaT negative_spread_conf = - 1 \<and>
   snd (reconfigure negative_spread_conf two_cells fixed_obj) = None \<and>
   fSigmaT (fst (reconfigure negative_spread_conf two_cells fixed_obj)) = - 1 \<and>
   fT0 (fst (reconfigure negative_spread_conf two_cells fixed_obj)) = 5"
proof -
  have c: "cfg_type negative_spread_conf = ''sampled''"
    "cfg_time_type negative_spread_conf = ''uniform''"
    "cfg_SigmaT negative_spread_conf = - 1" "cfg_T0 negative_spread_conf = 5"
    by (simp_all add: negative_spread_conf_def sampled_conf_def)
  from reconfigure_raises_iff_unrecognised [of negative_spread_conf two_cells fixed_obj]
  show ?thesis by (simp add: c)
qed

subsection \<open>C5: determinism\<close>

text \<open>
  C5: for a fixed seed, a fixed catalog and a fixed configuration, two runs that each
  construct a sampler and call it \<open>n\<close> times produce the same sequence of outcomes. A run
  is a function of the library, the seed service, the configuration, the geometry, the
  generator name, the number of calls and of what the memory of the uninitialised
  \<^verbatim>\<open>fTimeType\<close> held. Two runs whose seed services hand out the same seed agree, whatever
  the services are otherwise and whatever the uninitialised member held: the sampler
  reads nothing else.
\<close>

theorem sampler_run_deterministic:
  assumes "svc1 name (cfg_seed conf) = svc2 name (cfg_seed conf)"
  shows "sampler_run L svc1 conf geom name u1 n = sampler_run L svc2 conf geom name u2 n"
proof -
  have "ActiveVolumeVertexSampler L svc1 conf geom name u1 =
        ActiveVolumeVertexSampler L svc2 conf geom name u2"
    using assms by (rule ctor_deterministic)
  then show ?thesis by (simp add: sampler_run_def)
qed

theorem sampler_run_deterministic_witness:
  "seed42 ''MARLEY_Vertex_Sampler'' (cfg_seed sampled_conf)
     = seed_by_name ''MARLEY_Vertex_Sampler'' (cfg_seed sampled_conf) \<and>
   sampler_run counter_lib seed42 sampled_conf two_cells ''MARLEY_Vertex_Sampler'' kUniform 3 =
   sampler_run counter_lib seed_by_name sampled_conf two_cells ''MARLEY_Vertex_Sampler'' kGaussian 3"
proof -
  have h: "seed42 ''MARLEY_Vertex_Sampler'' (cfg_seed sampled_conf)
     = seed_by_name ''MARLEY_Vertex_Sampler'' (cfg_seed sampled_conf)"
    by (simp add: seed42_def seed_by_name_def)
  from h sampler_run_deterministic [of seed42 "''MARLEY_Vertex_Sampler''" sampled_conf
      seed_by_name counter_lib two_cells kUniform 3 kGaussian]
  show ?thesis by simp
qed

subsection \<open>C6: the order of the draws\<close>

text \<open>
  C6: a call in sampled mode draws, in this order, the cell index, \<open>x\<close>, \<open>y\<close>, \<open>z\<close> and
  the time; in either mode the time draw is one draw and comes after the position draws.
  A draw is one call of a distribution on the engine. For a call that returns a vertex,
  the log of the logging engine grows by exactly the draws listed: in fixed mode by the
  time draw alone, in sampled mode by the index draw over the stored weights, the three
  uniform draws over the x, y and z bounds of the cell drawn, and the time draw.
  By \<open>logged_faithful\<close> the logging engine changes nothing else of the call; a call
  that throws (\<open>sample_vertex_pos_sampled_total\<close> says when a sampled call cannot) has
  thrown before any coordinate or time is drawn.
\<close>

theorem draw_order:
  assumes ret: "snd (sample_vertex_pos L geom s) = Inr v"
  shows "(fVertexType s = kFixed \<longrightarrow>
            snd (fTPCEngine (fst (sample_vertex_pos (logged L) geom (with_engine s (fTPCEngine s, l)))))
              = l @ [time_draw s]) \<and>
         (fVertexType s = kSampled \<longrightarrow>
            (\<exists>w. fTPCDist s = Some w \<and>
               fst (discrete_distribution L w (fTPCEngine s)) < length geom \<and>
               snd (fTPCEngine (fst (sample_vertex_pos (logged L) geom (with_engine s (fTPCEngine s, l)))))
                 = l @ [DiscreteDraw w,
                        UniformDraw (MinX (geom ! fst (discrete_distribution L w (fTPCEngine s))))
                                    (MaxX (geom ! fst (discrete_distribution L w (fTPCEngine s)))),
                        UniformDraw (MinY (geom ! fst (discrete_distribution L w (fTPCEngine s))))
                                    (MaxY (geom ! fst (discrete_distribution L w (fTPCEngine s)))),
                        UniformDraw (MinZ (geom ! fst (discrete_distribution L w (fTPCEngine s))))
                                    (MaxZ (geom ! fst (discrete_distribution L w (fTPCEngine s)))),
                        time_draw s]))"
proof (intro conjI impI)
  assume "fVertexType s = kFixed"
  then show "snd (fTPCEngine (fst (sample_vertex_pos (logged L) geom (with_engine s (fTPCEngine s, l)))))
              = l @ [time_draw s]"
    by (simp add: sample_vertex_pos_def sample_position_def sample_time_def split_beta Let_def
        logged_simps with_engine_simps time_draw_def)
next
  assume sm: "fVertexType s = kSampled"
  from sample_vertex_pos_sampled_returns [OF sm ret]
  obtain w where w: "fTPCDist s = Some w"
    and i: "fst (discrete_distribution L w (fTPCEngine s)) < length geom" by blast
  show "\<exists>w. fTPCDist s = Some w \<and>
               fst (discrete_distribution L w (fTPCEngine s)) < length geom \<and>
               snd (fTPCEngine (fst (sample_vertex_pos (logged L) geom (with_engine s (fTPCEngine s, l)))))
                 = l @ [DiscreteDraw w,
                        UniformDraw (MinX (geom ! fst (discrete_distribution L w (fTPCEngine s))))
                                    (MaxX (geom ! fst (discrete_distribution L w (fTPCEngine s)))),
                        UniformDraw (MinY (geom ! fst (discrete_distribution L w (fTPCEngine s))))
                                    (MaxY (geom ! fst (discrete_distribution L w (fTPCEngine s)))),
                        UniformDraw (MinZ (geom ! fst (discrete_distribution L w (fTPCEngine s))))
                                    (MaxZ (geom ! fst (discrete_distribution L w (fTPCEngine s)))),
                        time_draw s]"
    using sm w i
    by (simp add: sample_vertex_pos_def sample_position_def sample_time_def TPC_def split_beta Let_def
        logged_simps with_engine_simps time_draw_def)
qed

theorem draw_order_witness:
  "snd (sample_vertex_pos counter_lib two_cells sampled_obj) = Inr \<lparr>X = 15 / 2, Y = 0, Z = 5 / 2, T = 5\<rparr> \<and>
   fVertexType sampled_obj = kSampled \<and>
   fTPCDist sampled_obj = Some [1, 3] \<and>
   snd (fTPCEngine (fst (sample_vertex_pos (logged counter_lib) two_cells
          (with_engine sampled_obj (fTPCEngine sampled_obj, []))))) =
     [DiscreteDraw [1, 3], UniformDraw 0 10, UniformDraw 0 10, UniformDraw 0 10, UniformDraw 4 6]"
proof -
  have ret: "snd (sample_vertex_pos counter_lib two_cells sampled_obj) =
      Inr \<lparr>X = 15 / 2, Y = 0, Z = 5 / 2, T = 5\<rparr>"
    by (simp add: sampled_obj_call)
  have sm: "fVertexType sampled_obj = kSampled" and w: "fTPCDist sampled_obj = Some [1, 3]"
    and e: "fTPCEngine sampled_obj = 42" and tt: "fTimeType sampled_obj = kUniform"
    and t0: "fT0 sampled_obj = 5" and sg: "fSigmaT sampled_obj = 1"
    by (simp_all add: sampled_obj_def)
  have d: "fst (discrete_distribution counter_lib [1, 3] 42) = 0" by code_simp
  from draw_order [OF ret, of "[]"] sm w
  have "snd (fTPCEngine (fst (sample_vertex_pos (logged counter_lib) two_cells
          (with_engine sampled_obj (fTPCEngine sampled_obj, []))))) =
     [DiscreteDraw [1, 3],
      UniformDraw (MinX (two_cells ! 0)) (MaxX (two_cells ! 0)),
      UniformDraw (MinY (two_cells ! 0)) (MaxY (two_cells ! 0)),
      UniformDraw (MinZ (two_cells ! 0)) (MaxZ (two_cells ! 0)),
      time_draw sampled_obj]"
    by (simp add: e d)
  moreover have "time_draw sampled_obj = UniformDraw 4 6"
    by (simp add: time_draw_def tt t0 sg)
  ultimately show ?thesis using ret sm w by (simp add: two_cells_def)
qed

subsection \<open>C7: the vertex lies in the selected cell\<close>

text \<open>
  C7: in sampled mode, the coordinates of a returned vertex lie within the bounds of the
  selected cell \<open>c\<close>, the cell of the index that the call draws, on each axis where
  \<open>min \<le> max\<close>; and on an axis with \<open>min = max\<close> the coordinate is that value. The library
  is assumed to keep a uniform draw within its range.
\<close>

theorem sampled_vertex_in_cell:
  assumes lib: "uniform_in_range L"
    and sm: "fVertexType s = kSampled"
    and ret: "snd (sample_vertex_pos L geom s) = Inr v"
  shows "\<exists>w c. fTPCDist s = Some w \<and>
           fst (discrete_distribution L w (fTPCEngine s)) < length geom \<and>
           c = geom ! fst (discrete_distribution L w (fTPCEngine s)) \<and>
           (MinX c \<le> MaxX c \<longrightarrow> MinX c \<le> X v \<and> X v \<le> MaxX c) \<and>
           (MinY c \<le> MaxY c \<longrightarrow> MinY c \<le> Y v \<and> Y v \<le> MaxY c) \<and>
           (MinZ c \<le> MaxZ c \<longrightarrow> MinZ c \<le> Z v \<and> Z v \<le> MaxZ c) \<and>
           (MinX c = MaxX c \<longrightarrow> X v = MinX c) \<and>
           (MinY c = MaxY c \<longrightarrow> Y v = MinY c) \<and>
           (MinZ c = MaxZ c \<longrightarrow> Z v = MinZ c)"
proof -
  from sample_vertex_pos_sampled_returns [OF sm ret]
  obtain w where w: "fTPCDist s = Some w"
    and i: "fst (discrete_distribution L w (fTPCEngine s)) < length geom" by blast
  define c where "c = geom ! fst (discrete_distribution L w (fTPCEngine s))"
  from sample_vertex_pos_sampled_coords [OF sm ret w]
  obtain e1 e2 e3 where
    x: "X v = fst (uniform_real_distribution L (MinX c) (MaxX c) e1)" and
    y: "Y v = fst (uniform_real_distribution L (MinY c) (MaxY c) e2)" and
    z: "Z v = fst (uniform_real_distribution L (MinZ c) (MaxZ c) e3)"
    unfolding c_def by blast
  have bx: "MinX c \<le> MaxX c \<Longrightarrow> MinX c \<le> X v \<and> X v \<le> MaxX c"
    using uniform_in_rangeD [OF lib, of "MinX c" "MaxX c" e1] x by simp
  have by': "MinY c \<le> MaxY c \<Longrightarrow> MinY c \<le> Y v \<and> Y v \<le> MaxY c"
    using uniform_in_rangeD [OF lib, of "MinY c" "MaxY c" e2] y by simp
  have bz: "MinZ c \<le> MaxZ c \<Longrightarrow> MinZ c \<le> Z v \<and> Z v \<le> MaxZ c"
    using uniform_in_rangeD [OF lib, of "MinZ c" "MaxZ c" e3] z by simp
  have dx: "MinX c = MaxX c \<Longrightarrow> X v = MinX c" using bx by simp
  have dy: "MinY c = MaxY c \<Longrightarrow> Y v = MinY c" using by' by simp
  have dz: "MinZ c = MaxZ c \<Longrightarrow> Z v = MinZ c" using bz by simp
  show ?thesis
    using w i c_def bx by' bz dx dy dz by blast
qed

theorem sampled_vertex_in_cell_witness:
  "uniform_in_range counter_lib \<and> fVertexType sampled_obj = kSampled \<and>
   snd (sample_vertex_pos counter_lib two_cells sampled_obj) = Inr \<lparr>X = 15 / 2, Y = 0, Z = 5 / 2, T = 5\<rparr> \<and>
   fst (discrete_distribution counter_lib [1, 3] 42) = 0 \<and>
   MinX (two_cells ! 0) \<le> 15 / 2 \<and> 15 / 2 \<le> MaxX (two_cells ! 0) \<and>
   MinY (two_cells ! 0) \<le> 0 \<and> 0 \<le> MaxY (two_cells ! 0) \<and>
   MinZ (two_cells ! 0) \<le> 5 / 2 \<and> 5 / 2 \<le> MaxZ (two_cells ! 0)"
proof -
  have ret: "snd (sample_vertex_pos counter_lib two_cells sampled_obj) =
      Inr \<lparr>X = 15 / 2, Y = 0, Z = 5 / 2, T = 5\<rparr>"
    by (simp add: sampled_obj_call)
  have ok: "MinX (two_cells ! 0) \<le> MaxX (two_cells ! 0)" "MinY (two_cells ! 0) \<le> MaxY (two_cells ! 0)"
    "MinZ (two_cells ! 0) \<le> MaxZ (two_cells ! 0)"
    by (simp_all add: two_cells_def)
  from sampled_vertex_in_cell [OF counter_lib_uniform sampled_obj_fields(1) ret]
  have "MinX (two_cells ! 0) \<le> 15 / 2 \<and> 15 / 2 \<le> MaxX (two_cells ! 0) \<and>
        MinY (two_cells ! 0) \<le> 0 \<and> 0 \<le> MaxY (two_cells ! 0) \<and>
        MinZ (two_cells ! 0) \<le> 5 / 2 \<and> 5 / 2 \<le> MaxZ (two_cells ! 0)"
    using ok by (simp add: sampled_obj_fields counter_lib_first_index)
  then show ?thesis
    using counter_lib_uniform sampled_obj_fields(1) ret counter_lib_first_index by simp
qed

subsection \<open>C8: zero spread\<close>

text \<open>
  C8: after a successful \<^verbatim>\<open>reconfigure\<close> with \<^verbatim>\<open>SigmaT = 0\<close>, every vertex any later
  call returns has \<open>t\<close> equal to the configured \<^verbatim>\<open>T0\<close>, in uniform and in gaussian mode,
  wherever the engine stands. The library is assumed to keep a uniform draw within its
  range and to return the mean from a normal distribution of standard deviation 0.
\<close>

theorem zero_spread_time:
  assumes "uniform_in_range L" and "normal_zero_spread L"
    and "cfg_SigmaT conf = 0"
    and "reconfigure conf geom0 s0 = (s, None)"
    and "Inr v \<in> set (sample_calls L geom n (s\<lparr>fTPCEngine := e\<rparr>))"
  shows "T v = cfg_T0 conf"
proof -
  from reconfigure_ok_time [OF assms(4)] assms(3)
  have "fSigmaT (s\<lparr>fTPCEngine := e\<rparr>) = 0" and t0: "fT0 (s\<lparr>fTPCEngine := e\<rparr>) = cfg_T0 conf"
    by simp_all
  from sample_calls_zero_spread [OF assms(1,2) this(1) assms(5)] t0
  show ?thesis by simp
qed

theorem zero_spread_time_witness:
  "uniform_in_range counter_lib \<and> normal_zero_spread counter_lib \<and>
   cfg_SigmaT zero_spread_conf = 0 \<and> cfg_T0 zero_spread_conf = 5 \<and>
   cfg_time_type zero_spread_conf = ''gaussian'' \<and>
   reconfigure zero_spread_conf two_cells sampled_obj = (zero_spread_obj, None) \<and>
   sample_calls counter_lib two_cells 2 (zero_spread_obj\<lparr>fTPCEngine := 7\<rparr>) =
     [Inr \<lparr>X = 1, Y = 1, Z = 1, T = 5\<rparr>, Inr \<lparr>X = 1, Y = 1, Z = 1, T = 5\<rparr>] \<and>
   cfg_SigmaT zero_spread_uniform_conf = 0 \<and> cfg_T0 zero_spread_uniform_conf = 5 \<and>
   cfg_time_type zero_spread_uniform_conf = ''uniform'' \<and>
   reconfigure zero_spread_uniform_conf two_cells fixed_obj = (zero_spread_uniform_obj, None) \<and>
   sample_calls counter_lib two_cells 1 (zero_spread_uniform_obj\<lparr>fTPCEngine := 7\<rparr>) =
     [Inr \<lparr>X = 100, Y = 5 / 2, Z = 5, T = 5\<rparr>]"
proof -
  have c: "cfg_SigmaT zero_spread_conf = 0" "cfg_T0 zero_spread_conf = 5"
    "cfg_time_type zero_spread_conf = ''gaussian''"
    by (simp_all add: zero_spread_conf_def fixed_conf_def)
  have r: "reconfigure zero_spread_conf two_cells sampled_obj = (zero_spread_obj, None)"
    by code_simp
  have calls: "sample_calls counter_lib two_cells 2 (zero_spread_obj\<lparr>fTPCEngine := 7\<rparr>) =
     [Inr \<lparr>X = 1, Y = 1, Z = 1, T = 5\<rparr>, Inr \<lparr>X = 1, Y = 1, Z = 1, T = 5\<rparr>]"
    by code_simp
  have m: "Inr \<lparr>X = 1, Y = 1, Z = 1, T = 5\<rparr>
             \<in> set (sample_calls counter_lib two_cells 2 (zero_spread_obj\<lparr>fTPCEngine := 7\<rparr>))"
    by (simp add: calls)
  have g: "T \<lparr>X = 1, Y = 1, Z = 1, T = 5\<rparr> = cfg_T0 zero_spread_conf"
    using counter_lib_uniform counter_lib_normal c(1) r m by (rule zero_spread_time)
  have c': "cfg_SigmaT zero_spread_uniform_conf = 0" "cfg_T0 zero_spread_uniform_conf = 5"
    "cfg_time_type zero_spread_uniform_conf = ''uniform''"
    by (simp_all add: zero_spread_uniform_conf_def sampled_conf_def)
  have r': "reconfigure zero_spread_uniform_conf two_cells fixed_obj = (zero_spread_uniform_obj, None)"
    by code_simp
  have calls': "sample_calls counter_lib two_cells 1 (zero_spread_uniform_obj\<lparr>fTPCEngine := 7\<rparr>) =
     [Inr \<lparr>X = 100, Y = 5 / 2, Z = 5, T = 5\<rparr>]"
    by code_simp
  show ?thesis
    using g counter_lib_uniform counter_lib_normal c r calls c' r' calls' by simp
qed

subsection \<open>C9: fixed mode redraws the time only\<close>

text \<open>
  C9: a call in fixed mode does no position sampling and redraws the time. It returns
  the stored vertex with the time that one draw of the specification's time sampler
  yields from the engine as the call finds it, and the object after the call is the
  object before it but for the time component of the stored vertex and the engine, which
  is the engine that draw leaves. Over \<open>n\<close> calls the outcomes are the position stored at
  configuration time with the \<open>n\<close> successive time draws, each from the engine the call
  before left. On the logging engine, one call adds the time draw and nothing else to
  the log, and \<open>n\<close> calls add \<open>n\<close> time draws and nothing else: no index draw and no
  coordinate draw is made, and a time draw is made on every call.
\<close>

theorem fixed_mode_redraws_time_only:
  assumes "fVertexType s = kFixed"
  shows "sample_vertex_pos L geom s =
           (s\<lparr>fTPCEngine := snd (time_sampler_spec L (fTimeType s) (fT0 s) (fSigmaT s) (fTPCEngine s)),
              fVertexPosition := (fVertexPosition s)
                \<lparr>T := fst (time_sampler_spec L (fTimeType s) (fT0 s) (fSigmaT s) (fTPCEngine s))\<rparr>\<rparr>,
            Inr ((fVertexPosition s)
                \<lparr>T := fst (time_sampler_spec L (fTimeType s) (fT0 s) (fSigmaT s) (fTPCEngine s))\<rparr>)) \<and>
         sample_calls L geom n s =
           map (\<lambda>t. Inr ((fVertexPosition s)\<lparr>T := t\<rparr>))
             (time_draws L (fTimeType s) (fT0 s) (fSigmaT s) n (fTPCEngine s)) \<and>
         length (time_draws L (fTimeType s) (fT0 s) (fSigmaT s) n (fTPCEngine s)) = n \<and>
         snd (fTPCEngine (fst (sample_vertex_pos (logged L) geom (with_engine s (fTPCEngine s, l)))))
           = l @ [time_draw s] \<and>
         snd (fTPCEngine (after_calls (logged L) geom n (with_engine s (fTPCEngine s, l))))
           = l @ replicate n (time_draw s)"
proof -
  have one: "sample_vertex_pos L geom s =
           (s\<lparr>fTPCEngine := snd (time_sampler_spec L (fTimeType s) (fT0 s) (fSigmaT s) (fTPCEngine s)),
              fVertexPosition := (fVertexPosition s)
                \<lparr>T := fst (time_sampler_spec L (fTimeType s) (fT0 s) (fSigmaT s) (fTPCEngine s))\<rparr>\<rparr>,
            Inr ((fVertexPosition s)
                \<lparr>T := fst (time_sampler_spec L (fTimeType s) (fT0 s) (fSigmaT s) (fTPCEngine s))\<rparr>))"
    using sample_vertex_pos_fixed [OF assms, of L geom] by (simp add: sample_time_spec)
  have log1: "snd (fTPCEngine (fst (sample_vertex_pos (logged L) geom (with_engine s (fTPCEngine s, l)))))
           = l @ [time_draw s]"
    by (simp add: logged_fixed_call [OF assms] with_engine_simps)
  show ?thesis
    using one sample_calls_fixed [OF assms, of L geom n] time_draws_length log1
      after_calls_fixed_log [OF assms, of L geom n "fTPCEngine s" l]
    by simp
qed

theorem fixed_mode_redraws_time_only_witness:
  "fVertexType fixed_obj = kFixed \<and> fTimeType fixed_obj = kGaussian \<and>
   fVertexPosition fixed_obj = \<lparr>X = 1, Y = 1, Z = 1, T = 0\<rparr> \<and>
   sample_calls counter_lib two_cells 2 fixed_obj =
     [Inr \<lparr>X = 1, Y = 1, Z = 1, T = 4\<rparr>, Inr \<lparr>X = 1, Y = 1, Z = 1, T = 5\<rparr>] \<and>
   snd (fTPCEngine (after_calls (logged counter_lib) two_cells 2
          (with_engine fixed_obj (fTPCEngine fixed_obj, [])))) = [NormalDraw 5 1, NormalDraw 5 1] \<and>
   fVertexType fixed_uniform_obj = kFixed \<and> fTimeType fixed_uniform_obj = kUniform \<and>
   fVertexPosition fixed_uniform_obj = \<lparr>X = 1, Y = 1, Z = 1, T = 0\<rparr> \<and>
   sample_calls counter_lib two_cells 2 fixed_uniform_obj =
     [Inr \<lparr>X = 1, Y = 1, Z = 1, T = 5\<rparr>, Inr \<lparr>X = 1, Y = 1, Z = 1, T = 11 / 2\<rparr>] \<and>
   snd (fTPCEngine (after_calls (logged counter_lib) two_cells 2
          (with_engine fixed_uniform_obj (fTPCEngine fixed_uniform_obj, [])))) =
     [UniformDraw 4 6, UniformDraw 4 6]"
proof -
  have g: "fVertexType fixed_obj = kFixed" "fTimeType fixed_obj = kGaussian"
    "fVertexPosition fixed_obj = \<lparr>X = 1, Y = 1, Z = 1, T = 0\<rparr>"
    "fT0 fixed_obj = 5" "fSigmaT fixed_obj = 1" "fTPCEngine fixed_obj = 42"
    by (simp_all add: fixed_obj_def)
  have u: "fVertexType fixed_uniform_obj = kFixed" "fTimeType fixed_uniform_obj = kUniform"
    "fVertexPosition fixed_uniform_obj = \<lparr>X = 1, Y = 1, Z = 1, T = 0\<rparr>"
    "fT0 fixed_uniform_obj = 5" "fSigmaT fixed_uniform_obj = 1" "fTPCEngine fixed_uniform_obj = 42"
    by (simp_all add: fixed_uniform_obj_def)
  have tg: "time_draws counter_lib kGaussian 5 1 2 42 = [4, 5]" by code_simp
  have tu: "time_draws counter_lib kUniform 5 1 2 42 = [5, 11 / 2]" by code_simp
  have dg: "time_draw fixed_obj = NormalDraw 5 1" by (simp add: time_draw_def g)
  have du: "time_draw fixed_uniform_obj = UniformDraw 4 6" by (simp add: time_draw_def u)
  have r2: "replicate 2 x = [x, x]" for x :: draw by (simp add: numeral_2_eq_2)
  from fixed_mode_redraws_time_only [OF g(1), of counter_lib two_cells 2 "[]"]
  have a0: "sample_calls counter_lib two_cells 2 fixed_obj =
       map (\<lambda>t. Inr ((fVertexPosition fixed_obj)\<lparr>T := t\<rparr>))
         (time_draws counter_lib (fTimeType fixed_obj) (fT0 fixed_obj) (fSigmaT fixed_obj) 2
            (fTPCEngine fixed_obj))"
    and b0: "snd (fTPCEngine (after_calls (logged counter_lib) two_cells 2
          (with_engine fixed_obj (fTPCEngine fixed_obj, [])))) = [] @ replicate 2 (time_draw fixed_obj)"
    by blast+
  have a: "sample_calls counter_lib two_cells 2 fixed_obj =
       [Inr \<lparr>X = 1, Y = 1, Z = 1, T = 4\<rparr>, Inr \<lparr>X = 1, Y = 1, Z = 1, T = 5\<rparr>]"
    and b: "snd (fTPCEngine (after_calls (logged counter_lib) two_cells 2
          (with_engine fixed_obj (fTPCEngine fixed_obj, [])))) = [NormalDraw 5 1, NormalDraw 5 1]"
    using a0 b0 by (simp_all add: g tg dg r2)
  from fixed_mode_redraws_time_only [OF u(1), of counter_lib two_cells 2 "[]"]
  have c0: "sample_calls counter_lib two_cells 2 fixed_uniform_obj =
       map (\<lambda>t. Inr ((fVertexPosition fixed_uniform_obj)\<lparr>T := t\<rparr>))
         (time_draws counter_lib (fTimeType fixed_uniform_obj) (fT0 fixed_uniform_obj)
            (fSigmaT fixed_uniform_obj) 2 (fTPCEngine fixed_uniform_obj))"
    and d0: "snd (fTPCEngine (after_calls (logged counter_lib) two_cells 2
          (with_engine fixed_uniform_obj (fTPCEngine fixed_uniform_obj, [])))) =
       [] @ replicate 2 (time_draw fixed_uniform_obj)"
    by blast+
  have c: "sample_calls counter_lib two_cells 2 fixed_uniform_obj =
       [Inr \<lparr>X = 1, Y = 1, Z = 1, T = 5\<rparr>, Inr \<lparr>X = 1, Y = 1, Z = 1, T = 11 / 2\<rparr>]"
    and d: "snd (fTPCEngine (after_calls (logged counter_lib) two_cells 2
          (with_engine fixed_uniform_obj (fTPCEngine fixed_uniform_obj, [])))) =
       [UniformDraw 4 6, UniformDraw 4 6]"
    using c0 d0 by (simp_all add: u tu du r2)
  show ?thesis using g(1,2,3) u(1,2,3) a b c d by simp
qed

subsection \<open>C10: the second and third components of the fixed position\<close>

text \<open>
  C10: two fixed-mode configurations that differ only in the second and third
  components of the position give the same run: the same outcome of the constructor and
  the same outcome of every call. (This is the other face of what C1 runs into.)
\<close>

theorem fixed_position_second_third_ignored:
  assumes "cfg_type conf = ''fixed''"
  shows "sampler_run L svc (conf\<lparr>cfg_position := (px, py, pz)\<rparr>) geom name u n =
         sampler_run L svc (conf\<lparr>cfg_position := (px, py', pz')\<rparr>) geom name u n"
proof -
  have "ActiveVolumeVertexSampler L svc (conf\<lparr>cfg_position := (px, py, pz)\<rparr>) geom name u =
        ActiveVolumeVertexSampler L svc (conf\<lparr>cfg_position := (px, py', pz')\<rparr>) geom name u"
    using assms by (rule ctor_position)
  then show ?thesis by (simp add: sampler_run_def)
qed

theorem fixed_position_second_third_ignored_witness:
  "cfg_type fixed_conf = ''fixed'' \<and>
   sampler_run counter_lib seed42 (fixed_conf\<lparr>cfg_position := (1, 2, 3)\<rparr>) two_cells
     ''MARLEY_Vertex_Sampler'' kUniform 2 =
   sampler_run counter_lib seed42 (fixed_conf\<lparr>cfg_position := (1, 7, 9)\<rparr>) two_cells
     ''MARLEY_Vertex_Sampler'' kUniform 2"
proof -
  have ty: "cfg_type fixed_conf = ''fixed''" by (simp add: fixed_conf_def)
  from ty fixed_position_second_third_ignored [OF ty, of counter_lib seed42 1 2 3 two_cells
      "''MARLEY_Vertex_Sampler''" kUniform 2 7 9]
  show ?thesis by simp
qed

end
